theory Spec2Isabelle
  imports Main "HOL-Library.Word"
begin

unbundle bit_operations_syntax

section \<open>Declarations outside the translated files\<close>

subsection \<open>The tcell library\<close>

text \<open>
  Modelled from the spec: the raw event source and the style descriptor belong to the
  tcell library, which the driver imports and which is not among the translated files.
  Its exported constants are written with the values the library declares for them
  (\<open>ButtonMask\<close>, \<open>ModMask\<close> and \<open>Key\<close> are 16-bit integers, a rune is a 32-bit integer,
  a colour is a 64-bit integer). The theorems refer to all of them by name.
\<close>

type_synonym ButtonMask = "16 word"
type_synonym ModMask = "16 word"
type_synonym tcellKey = "16 word"
type_synonym rune = "32 word"
type_synonym Color = "64 word"
type_synonym AttrMask = "64 word"

definition ButtonNone :: ButtonMask where "ButtonNone = 0"
definition ButtonPrimary :: ButtonMask where "ButtonPrimary = 1"
definition ButtonSecondary :: ButtonMask where "ButtonSecondary = 2"
definition ButtonMiddle :: ButtonMask where "ButtonMiddle = 4"
definition WheelUp :: ButtonMask where "WheelUp = 256"
definition WheelDown :: ButtonMask where "WheelDown = 512"
definition WheelLeft :: ButtonMask where "WheelLeft = 1024"
definition WheelRight :: ButtonMask where "WheelRight = 2048"

definition tcell_ModNone :: ModMask where "tcell_ModNone = 0"
definition tcell_ModShift :: ModMask where "tcell_ModShift = 1"
definition tcell_ModCtrl :: ModMask where "tcell_ModCtrl = 2"
definition tcell_ModAlt :: ModMask where "tcell_ModAlt = 4"

definition tcell_KeyRune :: tcellKey where "tcell_KeyRune = 256"
definition tcell_KeyCtrlSpace :: tcellKey where "tcell_KeyCtrlSpace = 0"

text \<open>
  Modelled from the spec: the value \<open>Screen.PollEvent()\<close> hands to \<open>pollEvent\<close> is one of
  interrupt, resize (width, height), key (code, rune, modifiers), mouse (column, row,
  button mask, modifiers), error (here with the text of its cause), or an event of another
  type.
\<close>

datatype Event =
    EventInterrupt
  | EventResize int int
  | EventKey tcellKey rune ModMask
  | EventMouse int int ButtonMask ModMask
  | EventError string
  | EventOther

text \<open>
  Modelled from the spec: the style descriptor (tcell's \<open>Style\<close>) holds a foreground colour,
  a background colour and a mask of flags. \<open>Foreground\<close> and \<open>Background\<close> replace one
  colour; each flag setter called with \<open>true\<close> adds its one bit to the mask, so the flags
  form a set on the style. \<open>StyleDefault\<close> is the zero value: default colours, no flag.
\<close>

definition tcell_ColorDefault :: Color where "tcell_ColorDefault = 0"

definition tcell_AttrBold :: AttrMask where "tcell_AttrBold = push_bit 0 1"
definition tcell_AttrBlink :: AttrMask where "tcell_AttrBlink = push_bit 1 1"
definition tcell_AttrReverse :: AttrMask where "tcell_AttrReverse = push_bit 2 1"
definition tcell_AttrUnderline :: AttrMask where "tcell_AttrUnderline = push_bit 3 1"
definition tcell_AttrDim :: AttrMask where "tcell_AttrDim = push_bit 4 1"
definition tcell_AttrItalic :: AttrMask where "tcell_AttrItalic = push_bit 5 1"
definition tcell_AttrStrikeThrough :: AttrMask where "tcell_AttrStrikeThrough = push_bit 6 1"

record Style =
  style_fg :: Color
  style_bg :: Color
  style_attrs :: AttrMask

definition StyleDefault :: Style where
  "StyleDefault =
     \<lparr>style_fg = tcell_ColorDefault, style_bg = tcell_ColorDefault, style_attrs = 0\<rparr>"

definition Foreground :: "Style \<Rightarrow> Color \<Rightarrow> Style" where
  "Foreground s c = s\<lparr>style_fg := c\<rparr>"

definition Background :: "Style \<Rightarrow> Color \<Rightarrow> Style" where
  "Background s c = s\<lparr>style_bg := c\<rparr>"

definition setAttrs :: "Style \<Rightarrow> AttrMask \<Rightarrow> bool \<Rightarrow> Style" where
  "setAttrs s m on =
    (if on then s\<lparr>style_attrs := style_attrs s OR m\<rparr>
     else s\<lparr>style_attrs := style_attrs s AND NOT m\<rparr>)"

definition Bold :: "Style \<Rightarrow> bool \<Rightarrow> Style" where
  "Bold s on = setAttrs s tcell_AttrBold on"

definition Blink :: "Style \<Rightarrow> bool \<Rightarrow> Style" where
  "Blink s on = setAttrs s tcell_AttrBlink on"

definition Reverse :: "Style \<Rightarrow> bool \<Rightarrow> Style" where
  "Reverse s on = setAttrs s tcell_AttrReverse on"

definition Underline :: "Style \<Rightarrow> bool \<Rightarrow> Style" where
  "Underline s on = setAttrs s tcell_AttrUnderline on"

definition Dim :: "Style \<Rightarrow> bool \<Rightarrow> Style" where
  "Dim s on = setAttrs s tcell_AttrDim on"

definition Italic :: "Style \<Rightarrow> bool \<Rightarrow> Style" where
  "Italic s on = setAttrs s tcell_AttrItalic on"

definition StrikeThrough :: "Style \<Rightarrow> bool \<Rightarrow> Style" where
  "StrikeThrough s on = setAttrs s tcell_AttrStrikeThrough on"

subsection \<open>Keys, modifiers and attributes of gocui\<close>

text \<open>
  Modelled from the spec: \<open>Key\<close> and \<open>Modifier\<close> are gocui's names for tcell's key and
  modifier types. The mouse keys (Left, Right, Middle, Release and the four wheel keys) and
  the modifiers are declared in gocui's key binding file, outside the translated file: the
  mouse keys as function keys that no keyboard sends, the motion modifier as a value of its
  own.
\<close>

type_synonym Key = "16 word"
type_synonym Modifier = "16 word"

definition MouseLeft :: Key where "MouseLeft = 341"
definition MouseRight :: Key where "MouseRight = 340"
definition MouseMiddle :: Key where "MouseMiddle = 339"
definition MouseRelease :: Key where "MouseRelease = 338"
definition MouseWheelUp :: Key where "MouseWheelUp = 337"
definition MouseWheelDown :: Key where "MouseWheelDown = 336"
definition MouseWheelLeft :: Key where "MouseWheelLeft = 335"
definition MouseWheelRight :: Key where "MouseWheelRight = 334"

definition ModNone :: Modifier where "ModNone = 0"
definition ModMotion :: Modifier where "ModMotion = 2"

text \<open>
  Modelled from the spec: an \<open>Attribute\<close> is a 64-bit mask that combines a colour selector
  (the low 40 bits; the "default" sentinel \<open>ColorDefault\<close> is the zero value) with seven
  independent style flags (one bit each, from bit 40 on). The constants are declared in
  gocui's attribute file, outside the translated file.
\<close>

type_synonym Attribute = "64 word"

definition ColorDefault :: Attribute where "ColorDefault = 0"
definition AttrColorBits :: Attribute where "AttrColorBits = 0xffffffffff"
definition AttrBold :: Attribute where "AttrBold = push_bit 40 1"
definition AttrBlink :: Attribute where "AttrBlink = push_bit 41 1"
definition AttrReverse :: Attribute where "AttrReverse = push_bit 42 1"
definition AttrUnderline :: Attribute where "AttrUnderline = push_bit 43 1"
definition AttrDim :: Attribute where "AttrDim = push_bit 44 1"
definition AttrItalic :: Attribute where "AttrItalic = push_bit 45 1"
definition AttrStrikeThrough :: Attribute where "AttrStrikeThrough = push_bit 46 1"

section \<open>The terminal driver bridge (gocui/tcell\_driver.go)\<close>

subsection \<open>The style encoder\<close>

text \<open>\<open>setTcellFontEffectStyle\<close>: seven tests, in the order of the source.\<close>

definition setTcellFontEffectStyle :: "Style \<Rightarrow> Attribute \<Rightarrow> Style" where
  "setTcellFontEffectStyle st attr =
    (let st = (if attr AND AttrBold \<noteq> 0 then Bold st True else st);
         st = (if attr AND AttrUnderline \<noteq> 0 then Underline st True else st);
         st = (if attr AND AttrReverse \<noteq> 0 then Reverse st True else st);
         st = (if attr AND AttrBlink \<noteq> 0 then Blink st True else st);
         st = (if attr AND AttrDim \<noteq> 0 then Dim st True else st);
         st = (if attr AND AttrItalic \<noteq> 0 then Italic st True else st);
         st = (if attr AND AttrStrikeThrough \<noteq> 0 then StrikeThrough st True else st)
     in st)"

text \<open>
  \<open>getTcellStyle\<close>. The colour conversion \<open>getTcellColor\<close> is declared outside the
  translated file and is taken as a parameter, as is the type of the output mode.
\<close>

definition getTcellStyle ::
    "(Attribute \<Rightarrow> 'm \<Rightarrow> Color) \<Rightarrow> Attribute \<Rightarrow> Attribute \<Rightarrow> 'm \<Rightarrow> Style" where
  "getTcellStyle getTcellColor fg bg omode =
    (let st = StyleDefault;
         st = (if fg \<noteq> ColorDefault
               then setTcellFontEffectStyle (Foreground st (getTcellColor fg omode)) fg
               else st);
         st = (if bg \<noteq> ColorDefault
               then setTcellFontEffectStyle (Background st (getTcellColor bg omode)) bg
               else st)
     in st)"

subsection \<open>Events and gesture state\<close>

datatype gocuiEventType =
  eventNone | eventKey | eventResize | eventMouse | eventInterrupt | eventError | eventRaw

record GocuiEvent =
  Type :: gocuiEventType
  Mod :: Modifier
  Key :: Key
  Ch :: rune
  Width :: int
  Height :: int
  Err :: "string option"
  MouseX :: int
  MouseY :: int
  N :: int

text \<open>A composite literal \<open>GocuiEvent{...}\<close> starts from the zero value of every field.\<close>

definition GocuiEvent0 :: GocuiEvent where
  "GocuiEvent0 = \<lparr>Type = eventNone, Mod = 0, Key = 0, Ch = 0, Width = 0, Height = 0,
     Err = None, MouseX = 0, MouseY = 0, N = 0\<rparr>"

definition NOT_DRAGGING :: int where "NOT_DRAGGING = 0"
definition MAYBE_DRAGGING :: int where "MAYBE_DRAGGING = 1"
definition DRAGGING :: int where "DRAGGING = 2"

text \<open>The package-level variables \<open>lastMouseKey\<close>, \<open>lastMouseMod\<close>, \<open>dragState\<close>, \<open>lastX\<close>, \<open>lastY\<close>.\<close>

record gesture =
  lastMouseKey :: ButtonMask
  lastMouseMod :: ModMask
  dragState :: int
  lastX :: int
  lastY :: int

definition gesture0 :: gesture where
  "gesture0 = \<lparr>lastMouseKey = ButtonNone, lastMouseMod = tcell_ModNone,
     dragState = NOT_DRAGGING, lastX = 0, lastY = 0\<rparr>"

subsection \<open>pollEvent\<close>

text \<open>The \<open>*tcell.EventKey\<close> case: the key, the rune and the modifiers of the raw event.\<close>

definition pollKey :: "tcellKey \<Rightarrow> rune \<Rightarrow> ModMask \<Rightarrow> GocuiEvent" where
  "pollKey key r mods =
    (let k = key;
         ch = 0;
         (k, ch) = (if k = tcell_KeyRune then
                      (let k = 0; ch = r in if ch = 32 then (32, 0) else (k, ch))
                    else (k, ch));
         md = mods;
         (md, ch, k) = (if md = tcell_ModCtrl \<and> k = 32 then (0, 0, tcell_KeyCtrlSpace)
                        else if md = tcell_ModCtrl \<or> md = tcell_ModShift then (0, ch, k)
                        else (md, ch, k))
     in GocuiEvent0\<lparr>Type := eventKey, Key := k, Ch := ch, Mod := md\<rparr>)"

text \<open>
  The \<open>*tcell.EventMouse\<close> case, block by block. \<open>wheelKey\<close> is the run of four tests on
  the wheel bits; each later test overwrites the key an earlier one chose.
\<close>

definition wheelKey :: "ButtonMask \<Rightarrow> Key" where
  "wheelKey buttons =
    (let mouseKey = MouseRelease;
         mouseKey = (if buttons AND WheelUp \<noteq> 0 then MouseWheelUp else mouseKey);
         mouseKey = (if buttons AND WheelDown \<noteq> 0 then MouseWheelDown else mouseKey);
         mouseKey = (if buttons AND WheelLeft \<noteq> 0 then MouseWheelLeft else mouseKey);
         mouseKey = (if buttons AND WheelRight \<noteq> 0 then MouseWheelRight else mouseKey)
     in mouseKey)"

text \<open>
  The press block: with the wheel bits masked off, a button that is down while no button
  is recorded as held is recorded, and the primary button arms the drag state.
\<close>

definition pressStep ::
    "int \<Rightarrow> int \<Rightarrow> ButtonMask \<Rightarrow> ModMask \<Rightarrow> Key \<Rightarrow> gesture \<Rightarrow> Key \<times> gesture" where
  "pressStep x y buttons mods mouseKey s =
    (let button = buttons AND 0xff in
     if button \<noteq> ButtonNone \<and> lastMouseKey s = ButtonNone then
       (let s = s\<lparr>lastMouseKey := button, lastMouseMod := mods\<rparr> in
        if button = ButtonPrimary then
          (MouseLeft, s\<lparr>dragState := MAYBE_DRAGGING, lastX := x, lastY := y\<rparr>)
        else if button = ButtonSecondary then (MouseRight, s)
        else if button = ButtonMiddle then (MouseMiddle, s)
        else (mouseKey, s))
     else (mouseKey, s))"

text \<open>
  The release block switches on the unmasked \<open>tev.Buttons()\<close>: no button and no wheel.
\<close>

definition releaseStep :: "ButtonMask \<Rightarrow> Modifier \<Rightarrow> gesture \<Rightarrow> Modifier \<times> gesture" where
  "releaseStep buttons mouseMod s =
    (if buttons = ButtonNone \<and> lastMouseKey s \<noteq> ButtonNone then
       (let s = (if lastMouseKey s = ButtonPrimary then s\<lparr>dragState := NOT_DRAGGING\<rparr> else s)
        in (lastMouseMod s, s\<lparr>lastMouseMod := tcell_ModNone, lastMouseKey := ButtonNone\<rparr>))
     else (mouseMod, s))"

text \<open>The switch on \<open>dragState\<close> and the event that is returned.\<close>

definition dragStep ::
    "int \<Rightarrow> int \<Rightarrow> Key \<Rightarrow> Modifier \<Rightarrow> gesture \<Rightarrow> GocuiEvent \<times> gesture" where
  "dragStep x y mouseKey mouseMod s =
    (if dragState s = NOT_DRAGGING then (GocuiEvent0\<lparr>Type := eventNone\<rparr>, s)
     else
       (let (mouseKey, mouseMod, s) =
          (if dragState s = MAYBE_DRAGGING then
             (mouseKey, mouseMod,
              if x \<noteq> lastX s \<or> y \<noteq> lastY s then s\<lparr>dragState := DRAGGING\<rparr> else s)
           else if dragState s = DRAGGING then (MouseLeft, ModMotion, s)
           else (mouseKey, mouseMod, s))
        in (GocuiEvent0\<lparr>Type := eventMouse, MouseX := x, MouseY := y, Key := mouseKey,
              Ch := 0, Mod := mouseMod\<rparr>, s)))"

definition pollMouse ::
    "int \<Rightarrow> int \<Rightarrow> ButtonMask \<Rightarrow> ModMask \<Rightarrow> gesture \<Rightarrow> GocuiEvent \<times> gesture" where
  "pollMouse x y buttons mods s =
    (let (mouseKey, s) = pressStep x y buttons mods (wheelKey buttons) s;
         (mouseMod, s) = releaseStep buttons ModNone s
     in dragStep x y mouseKey mouseMod s)"

text \<open>
  \<open>pollEvent\<close>: the raw event is the argument, the package-level variables are passed in
  and returned. Only the mouse case touches them.
\<close>

fun pollEvent :: "Event \<Rightarrow> gesture \<Rightarrow> GocuiEvent \<times> gesture" where
  "pollEvent EventInterrupt s = (GocuiEvent0\<lparr>Type := eventInterrupt\<rparr>, s)"
| "pollEvent (EventResize w h) s =
     (GocuiEvent0\<lparr>Type := eventResize, Width := w, Height := h\<rparr>, s)"
| "pollEvent (EventKey key r mods) s = (pollKey key r mods, s)"
| "pollEvent (EventMouse x y buttons mods) s = pollMouse x y buttons mods s"
| "pollEvent (EventError cause) s = (GocuiEvent0\<lparr>Type := eventNone\<rparr>, s)"
| "pollEvent EventOther s = (GocuiEvent0\<lparr>Type := eventNone\<rparr>, s)"

text \<open>The polling loop of the caller: one \<open>pollEvent\<close> per raw event, in order.\<close>

fun pollEvents :: "Event list \<Rightarrow> gesture \<Rightarrow> GocuiEvent list \<times> gesture" where
  "pollEvents [] s = ([], s)"
| "pollEvents (e # es) s =
    (let (out, s1) = pollEvent e s; (outs, s2) = pollEvents es s1 in (out # outs, s2))"

section \<open>The candidate extractor\<close>

text \<open>
  Modelled from the spec: the extractor (\<open>GenerateMenuCandidates\<close>) is not among the
  translated files, only its test is. A pattern is a regular expression given as a syntax
  tree, with capturing groups that may carry a name; groups are numbered from 1 in the
  order in which they open. "Attempt to match the pattern against the line" is read as
  the regular expression library does it: the leftmost match in the line, alternatives
  tried in order, repetition greedy. \<open>matches r n s c\<close> lists, in that order of
  preference, the ways \<open>r\<close> matches a prefix of \<open>s\<close>: what is left of \<open>s\<close>, and the
  captures \<open>c\<close> extended; \<open>n\<close> is the number of the first group of \<open>r\<close>. A repetition
  goes on only while the repeated expression consumes input.
\<close>

datatype regex =
    Chr char
  | Class "(char \<times> char) list"
  | AnyChar
  | Seq regex regex
  | Alt regex regex
  | Star regex
  | Plus regex
  | Group "string option" regex

type_synonym captures = "nat \<rightharpoonup> string"

primrec groups :: "regex \<Rightarrow> nat" where
  "groups (Chr a) = 0"
| "groups (Class rs) = 0"
| "groups AnyChar = 0"
| "groups (Seq r1 r2) = groups r1 + groups r2"
| "groups (Alt r1 r2) = groups r1 + groups r2"
| "groups (Star r) = groups r"
| "groups (Plus r) = groups r"
| "groups (Group name r) = Suc (groups r)"

primrec groupNames :: "regex \<Rightarrow> nat \<Rightarrow> (string \<times> nat) list" where
  "groupNames (Chr a) n = []"
| "groupNames (Class rs) n = []"
| "groupNames AnyChar n = []"
| "groupNames (Seq r1 r2) n = groupNames r1 n @ groupNames r2 (n + groups r1)"
| "groupNames (Alt r1 r2) n = groupNames r1 n @ groupNames r2 (n + groups r1)"
| "groupNames (Star r) n = groupNames r n"
| "groupNames (Plus r) n = groupNames r n"
| "groupNames (Group name r) n =
     (case name of None \<Rightarrow> [] | Some nm \<Rightarrow> [(nm, n)]) @ groupNames r (Suc n)"

definition inClass :: "(char \<times> char) list \<Rightarrow> char \<Rightarrow> bool" where
  "inClass rs x =
     list_ex (\<lambda>(lo, hi). (of_char lo :: nat) \<le> of_char x \<and> (of_char x :: nat) \<le> of_char hi) rs"

fun iterate :: "(string \<Rightarrow> captures \<Rightarrow> (string \<times> captures) list) \<Rightarrow> nat \<Rightarrow> string \<Rightarrow> captures
    \<Rightarrow> (string \<times> captures) list" where
  "iterate f 0 s c = [(s, c)]"
| "iterate f (Suc n) s c =
     concat (map (\<lambda>(s', c'). if length s' < length s then iterate f n s' c' else []) (f s c))
     @ [(s, c)]"

primrec matches :: "regex \<Rightarrow> nat \<Rightarrow> string \<Rightarrow> captures \<Rightarrow> (string \<times> captures) list" where
  "matches (Chr a) n s c = (case s of [] \<Rightarrow> [] | x # xs \<Rightarrow> if x = a then [(xs, c)] else [])"
| "matches (Class rs) n s c =
     (case s of [] \<Rightarrow> [] | x # xs \<Rightarrow> if inClass rs x then [(xs, c)] else [])"
| "matches AnyChar n s c = (case s of [] \<Rightarrow> [] | x # xs \<Rightarrow> [(xs, c)])"
| "matches (Seq r1 r2) n s c =
     concat (map (\<lambda>(s', c'). matches r2 (n + groups r1) s' c') (matches r1 n s c))"
| "matches (Alt r1 r2) n s c = matches r1 n s c @ matches r2 (n + groups r1) s c"
| "matches (Star r) n s c = iterate (matches r n) (length s) s c"
| "matches (Plus r) n s c =
     concat (map (\<lambda>(s', c'). iterate (matches r n) (length s') s' c') (matches r n s c))"
| "matches (Group name r) n s c =
     map (\<lambda>(s', c'). (s', c'(n \<mapsto> take (length s - length s') s))) (matches r (Suc n) s c)"

fun search :: "regex \<Rightarrow> string \<Rightarrow> captures option" where
  "search r [] = (case matches r 1 [] Map.empty of [] \<Rightarrow> None | (s', c) # _ \<Rightarrow> Some c)"
| "search r (x # xs) =
     (case matches r 1 (x # xs) Map.empty of [] \<Rightarrow> search r xs | (s', c) # _ \<Rightarrow> Some c)"

text \<open>
  Modelled from the spec: the substitution context exposes every named capture group under
  its name, and every capture group, named or not, under the positional key \<open>group_N\<close>,
  \<open>N\<close> its 1-based index in the pattern. A group that took no part in the match has the
  empty text.
\<close>

fun digit :: "nat \<Rightarrow> char" where
  "digit n = char_of (48 + n)"

fun decimal :: "nat \<Rightarrow> string" where
  "decimal n = (if n < 10 then [digit n] else decimal (n div 10) @ [digit (n mod 10)])"

definition groupText :: "captures \<Rightarrow> nat \<Rightarrow> string" where
  "groupText c n = (case c n of None \<Rightarrow> [] | Some t \<Rightarrow> t)"

definition matchContext :: "regex \<Rightarrow> captures \<Rightarrow> (string \<times> string) list" where
  "matchContext r c =
     map (\<lambda>(nm, n). (nm, groupText c n)) (groupNames r 1)
     @ map (\<lambda>n. (''group_'' @ decimal n, groupText c n)) [1 ..< Suc (groups r)]"

text \<open>
  Modelled from the spec: a template is a sequence of literal text and references to keys
  of the context. Rendering substitutes each reference; a reference to a key that the
  pattern does not have fails with \<open>TemplateError\<close>. A malformed pattern fails with
  \<open>PatternError\<close>.
\<close>

datatype piece = Text string | Ref string

datatype error = PatternError | TemplateError

fun render :: "piece list \<Rightarrow> (string \<times> string) list \<Rightarrow> error + string" where
  "render [] ctx = Inr []"
| "render (Text t # ps) ctx =
     (case render ps ctx of Inl e \<Rightarrow> Inl e | Inr rest \<Rightarrow> Inr (t @ rest))"
| "render (Ref k # ps) ctx =
     (case map_of ctx k of
        None \<Rightarrow> Inl TemplateError
      | Some v \<Rightarrow> (case render ps ctx of Inl e \<Rightarrow> Inl e | Inr rest \<Rightarrow> Inr (v @ rest)))"

text \<open>
  Modelled from the spec: the text is split on line boundaries, an empty trailing line
  ignored. Per line: a line without a match contributes nothing; otherwise the value is the
  value template rendered against the context of the match, the label is the rendered value
  when the label template is empty and the label template rendered against the same context
  otherwise; the pairs are appended in line order. A template error aborts the whole call.
  A pattern that does not compile (\<open>None\<close>) fails before any line is processed.
\<close>

record Candidate =
  label :: string
  "value" :: string

fun splitLines :: "string \<Rightarrow> string list" where
  "splitLines [] = []"
| "splitLines (x # xs) =
     (if x = CHR 0x0A then [] # splitLines xs
      else (case splitLines xs of [] \<Rightarrow> [[x]] | l # ls \<Rightarrow> (x # l) # ls))"

fun extractLines ::
    "regex \<Rightarrow> piece list \<Rightarrow> piece list \<Rightarrow> string list \<Rightarrow> error + Candidate list" where
  "extractLines r valueTemplate labelTemplate [] = Inr []"
| "extractLines r valueTemplate labelTemplate (l # ls) =
     (case search r l of
        None \<Rightarrow> extractLines r valueTemplate labelTemplate ls
      | Some c \<Rightarrow>
         (case render valueTemplate (matchContext r c) of
            Inl e \<Rightarrow> Inl e
          | Inr v \<Rightarrow>
             (case (if labelTemplate = [] then Inr v
                    else render labelTemplate (matchContext r c)) of
                Inl e \<Rightarrow> Inl e
              | Inr lab \<Rightarrow>
                 (case extractLines r valueTemplate labelTemplate ls of
                    Inl e \<Rightarrow> Inl e
                  | Inr cs \<Rightarrow> Inr (\<lparr>label = lab, value = v\<rparr> # cs)))))"

definition GenerateMenuCandidates ::
    "string \<Rightarrow> regex option \<Rightarrow> piece list \<Rightarrow> piece list \<Rightarrow> error + Candidate list" where
  "GenerateMenuCandidates text pattern valueTemplate labelTemplate =
     (case pattern of
        None \<Rightarrow> Inl PatternError
      | Some r \<Rightarrow> extractLines r valueTemplate labelTemplate (splitLines text))"

section \<open>Notions used to state the properties\<close>

text \<open>
  The gesture invariant; the event a drag reports; a raw event that, if it is a mouse
  event, has the primary button down; a raw event and the event reported for it during a
  drag.
\<close>

definition gesture_inv :: "gesture \<Rightarrow> bool" where
  "gesture_inv s = ((dragState s \<noteq> NOT_DRAGGING) = (lastMouseKey s = ButtonPrimary))"




text \<open>
  The flags of an attribute, as bits of the style's mask: what the seven tests of
  \<open>setTcellFontEffectStyle\<close> add.
\<close>

definition fontEffects :: "Attribute \<Rightarrow> AttrMask" where
  "fontEffects attr =
     (if attr AND AttrBold \<noteq> 0 then tcell_AttrBold else 0)
  OR (if attr AND AttrUnderline \<noteq> 0 then tcell_AttrUnderline else 0)
  OR (if attr AND AttrReverse \<noteq> 0 then tcell_AttrReverse else 0)
  OR (if attr AND AttrBlink \<noteq> 0 then tcell_AttrBlink else 0)
  OR (if attr AND AttrDim \<noteq> 0 then tcell_AttrDim else 0)
  OR (if attr AND AttrItalic \<noteq> 0 then tcell_AttrItalic else 0)
  OR (if attr AND AttrStrikeThrough \<noteq> 0 then tcell_AttrStrikeThrough else 0)"

text \<open>
  The pattern of the extractor's scenarios, \<open>(?P<remote>[a-z_]+)/(?P<branch>.*)\<close>, and the
  contexts of the matching lines of a text, in line order.
\<close>

definition remoteBranch :: regex where
  "remoteBranch =
     Seq (Group (Some ''remote'') (Plus (Class [(CHR ''a'', CHR ''z''), (CHR ''_'', CHR ''_'')])))
       (Seq (Chr CHR ''/'') (Group (Some ''branch'') (Star AnyChar)))"

fun matchContexts :: "regex \<Rightarrow> string list \<Rightarrow> (string \<times> string) list list" where
  "matchContexts r [] = []"
| "matchContexts r (l # ls) =
     (case search r l of None \<Rightarrow> matchContexts r ls
      | Some c \<Rightarrow> matchContext r c # matchContexts r ls)"

section \<open>Properties of the event translator\<close>

lemmas tcell_consts = ButtonNone_def ButtonPrimary_def ButtonSecondary_def ButtonMiddle_def
  WheelUp_def WheelDown_def WheelLeft_def WheelRight_def tcell_ModNone_def tcell_ModShift_def
  tcell_ModCtrl_def tcell_ModAlt_def tcell_KeyRune_def

lemmas drag_consts = NOT_DRAGGING_def MAYBE_DRAGGING_def DRAGGING_def

lemmas mouse_steps = pollMouse_def pressStep_def releaseStep_def dragStep_def


lemma pollMouse_press_primary:
  assumes "lastMouseKey s = ButtonNone"
  shows "pollMouse x y ButtonPrimary mods s =
    (GocuiEvent0\<lparr>Type := eventMouse, MouseX := x, MouseY := y, Key := MouseLeft, Ch := 0,
       Mod := ModNone\<rparr>,
     s\<lparr>lastMouseKey := ButtonPrimary, lastMouseMod := mods, dragState := MAYBE_DRAGGING,
       lastX := x, lastY := y\<rparr>)"
  using assms by (simp add: mouse_steps tcell_consts drag_consts)

lemma pollMouse_release_primary:
  assumes "lastMouseKey s = ButtonPrimary"
  shows "pollMouse x y ButtonNone mods s =
    (GocuiEvent0\<lparr>Type := eventNone\<rparr>,
     s\<lparr>dragState := NOT_DRAGGING, lastMouseMod := tcell_ModNone, lastMouseKey := ButtonNone\<rparr>)"
  using assms by (simp add: mouse_steps tcell_consts drag_consts)





lemma pollMouse_inv: "gesture_inv s \<Longrightarrow> gesture_inv (snd (pollMouse x y b mods s))"
  by (auto simp add: gesture_inv_def mouse_steps drag_consts Let_def ButtonNone_def
      ButtonPrimary_def split: if_splits)

lemma pollEvent_inv: "gesture_inv s \<Longrightarrow> gesture_inv (snd (pollEvent e s))"
  by (cases e) (simp_all add: pollMouse_inv)

lemma pollEvents_inv: "gesture_inv s \<Longrightarrow> gesture_inv (snd (pollEvents es s))"
proof (induction es arbitrary: s)
  case Nil
  then show ?case by simp
next
  case (Cons e es)
  from Cons.prems have "gesture_inv (snd (pollEvent e s))" by (rule pollEvent_inv)
  then have "gesture_inv (snd (pollEvents es (snd (pollEvent e s))))" by (rule Cons.IH)
  then show ?case by (simp add: split_beta)
qed

lemma gesture0_inv: "gesture_inv gesture0"
  by (simp add: gesture_inv_def gesture0_def tcell_consts)

lemma pollMouse_stays_idle:
  assumes "dragState s = NOT_DRAGGING" and "b AND 0xff \<noteq> ButtonPrimary"
  shows "dragState (snd (pollMouse x y b mods s)) = NOT_DRAGGING"
  using assms by (auto simp add: mouse_steps drag_consts Let_def split: if_splits)


subsection \<open>Click: press and release at one position\<close>

text \<open>
  The release of a click is not reported as a mouse event. At the explicit input (from the
  initial state, the primary button pressed with Ctrl at column 3, row 4, then no button at
  the same position) the press yields the \<open>MouseLeft\<close> event and the release yields the
  \<open>eventNone\<close> event: the release block has put \<open>dragState\<close> back to \<open>NOT_DRAGGING\<close>,
  and the switch on \<open>dragState\<close> returns \<open>eventNone\<close> for that state.
\<close>

theorem click_release_not_reported:
  "fst (pollEvents [EventMouse 3 4 ButtonPrimary tcell_ModCtrl,
                    EventMouse 3 4 ButtonNone tcell_ModNone] gesture0)
     = [GocuiEvent0\<lparr>Type := eventMouse, MouseX := 3, MouseY := 4, Key := MouseLeft, Ch := 0,
          Mod := ModNone\<rparr>,
        GocuiEvent0\<lparr>Type := eventNone\<rparr>]
   \<and> Type (fst (pollEvent (EventMouse 3 4 ButtonNone tcell_ModNone)
        (snd (pollEvent (EventMouse 3 4 ButtonPrimary tcell_ModCtrl) gesture0)))) \<noteq> eventMouse"
  by (simp add: pollMouse_press_primary pollMouse_release_primary gesture0_def GocuiEvent0_def)

text \<open>
  Claim C1, as amended. Whenever no button is recorded as held, a primary-button press at
  \<open>(x, y)\<close> yields the mouse event with key \<open>MouseLeft\<close> and no modifier, records the
  button, the modifiers and the position, and arms the drag state (\<open>MAYBE_DRAGGING\<close>). A
  following event with no button at the same position puts the drag state back to
  \<open>NOT_DRAGGING\<close> (it never was \<open>DRAGGING\<close>), clears the recorded button and modifiers, and
  yields the \<open>eventNone\<close> event: no release event and no drag event is reported.
\<close>

theorem click_press_then_release:
  assumes "lastMouseKey s = ButtonNone"
  shows "pollEvent (EventMouse x y ButtonPrimary mods) s =
      (GocuiEvent0\<lparr>Type := eventMouse, MouseX := x, MouseY := y, Key := MouseLeft, Ch := 0,
         Mod := ModNone\<rparr>,
       s\<lparr>lastMouseKey := ButtonPrimary, lastMouseMod := mods, dragState := MAYBE_DRAGGING,
         lastX := x, lastY := y\<rparr>)
    \<and> pollEvent (EventMouse x y ButtonNone mods')
        (snd (pollEvent (EventMouse x y ButtonPrimary mods) s)) =
      (GocuiEvent0\<lparr>Type := eventNone\<rparr>,
       s\<lparr>lastMouseKey := ButtonNone, lastMouseMod := tcell_ModNone, dragState := NOT_DRAGGING,
         lastX := x, lastY := y\<rparr>)"
  using assms by (simp add: pollMouse_press_primary pollMouse_release_primary)

text \<open>The same at the initial state, with Ctrl held at the press.\<close>

theorem click_press_then_release_witness:
  "lastMouseKey gesture0 = ButtonNone
   \<and> pollEvent (EventMouse 3 4 ButtonPrimary tcell_ModCtrl) gesture0 =
      (GocuiEvent0\<lparr>Type := eventMouse, MouseX := 3, MouseY := 4, Key := MouseLeft, Ch := 0,
         Mod := ModNone\<rparr>,
       gesture0\<lparr>lastMouseKey := ButtonPrimary, lastMouseMod := tcell_ModCtrl,
         dragState := MAYBE_DRAGGING, lastX := 3, lastY := 4\<rparr>)
   \<and> pollEvent (EventMouse 3 4 ButtonNone tcell_ModNone)
        (snd (pollEvent (EventMouse 3 4 ButtonPrimary tcell_ModCtrl) gesture0)) =
      (GocuiEvent0\<lparr>Type := eventNone\<rparr>,
       gesture0\<lparr>lastMouseKey := ButtonNone, lastMouseMod := tcell_ModNone,
         dragState := NOT_DRAGGING, lastX := 3, lastY := 4\<rparr>)"
proof -
  have idle: "lastMouseKey gesture0 = ButtonNone" by (simp add: gesture0_def)
  from click_press_then_release [OF idle, of 3 4 tcell_ModCtrl tcell_ModNone] idle
  show ?thesis by blast
qed

subsection \<open>Wheel events\<close>

text \<open>
  Claim C2, evaluated on the code. The wheel key is computed, but the event is not returned
  before the switch on \<open>dragState\<close>. From the initial state a wheel-up event yields the
  \<open>eventNone\<close> event. After a primary press at \<open>(3, 4)\<close> a wheel-up event at \<open>(3, 5)\<close>
  moves the drag state from \<open>MAYBE_DRAGGING\<close> to \<open>DRAGGING\<close>. In the state \<open>DRAGGING\<close>
  a wheel-up event is reported with the key \<open>MouseLeft\<close>.
\<close>

theorem wheel_event_enters_drag_switch:
  "pollEvent (EventMouse 0 0 WheelUp tcell_ModNone) gesture0 =
     (GocuiEvent0\<lparr>Type := eventNone\<rparr>, gesture0)
   \<and> dragState (snd (pollEvents [EventMouse 3 4 ButtonPrimary tcell_ModNone] gesture0))
       = MAYBE_DRAGGING
   \<and> dragState (snd (pollEvents [EventMouse 3 4 ButtonPrimary tcell_ModNone,
         EventMouse 3 5 WheelUp tcell_ModNone] gesture0)) = DRAGGING
   \<and> Key (fst (pollEvent (EventMouse 3 6 WheelUp tcell_ModNone)
        (snd (pollEvents [EventMouse 3 4 ButtonPrimary tcell_ModNone,
         EventMouse 3 5 ButtonPrimary tcell_ModNone] gesture0)))) = MouseLeft"
  by (simp add: mouse_steps gesture0_def tcell_consts drag_consts wheelKey_def)

subsection \<open>Error events\<close>

text \<open>
  A raw error event is not passed through: at the explicit input the result neither has
  the type \<open>eventError\<close> nor carries the cause.
\<close>

theorem error_event_not_passed_through:
  "\<not> (Type (fst (pollEvent (EventError ''read error'') gesture0)) = eventError
      \<and> Err (fst (pollEvent (EventError ''read error'') gesture0)) = Some ''read error'')"
  by (simp add: GocuiEvent0_def)

text \<open>
  Claim C3, as amended. The type switch has no case for a raw error event: it takes the
  default branch, as every event type other than interrupt, resize, key and mouse does.
  For every cause and every gesture state the result is the \<open>eventNone\<close> event with no
  error in it, and the gesture state is unchanged; nothing is retried.
\<close>

theorem error_event_gives_none:
  "pollEvent (EventError cause) s = (GocuiEvent0\<lparr>Type := eventNone\<rparr>, s)
   \<and> Type (fst (pollEvent (EventError cause) s)) = eventNone
   \<and> Err (fst (pollEvent (EventError cause) s)) = None
   \<and> pollEvent (EventError cause) s = pollEvent EventOther s"
  by (simp add: GocuiEvent0_def)

subsection \<open>Dragging\<close>




subsection \<open>The space key\<close>

text \<open>
  Claim C5. In every gesture state, a raw key event with key \<open>KeyRune\<close> and the space rune
  (32) yields, with no modifier, the key event with key code 32, rune 0 and no modifier;
  with exactly the Ctrl modifier it yields the key event with tcell's \<open>KeyCtrlSpace\<close> code,
  rune 0 and no modifier. The gesture state is unchanged.
\<close>

theorem space_key_translation:
  "pollEvent (EventKey tcell_KeyRune 32 tcell_ModNone) s =
     (GocuiEvent0\<lparr>Type := eventKey, Key := 32, Ch := 0, Mod := ModNone\<rparr>, s)
   \<and> pollEvent (EventKey tcell_KeyRune 32 tcell_ModCtrl) s =
     (GocuiEvent0\<lparr>Type := eventKey, Key := tcell_KeyCtrlSpace, Ch := 0, Mod := ModNone\<rparr>, s)"
  by (simp add: pollKey_def Let_def tcell_consts ModNone_def)

subsection \<open>The gesture invariant\<close>

text \<open>
  Claim C10. After every run of raw events from the initial state, the drag state differs
  from \<open>NOT_DRAGGING\<close> exactly when the recorded button is the primary button. In such a
  state a mouse event whose button is the secondary or the middle button leaves the drag
  state at \<open>NOT_DRAGGING\<close>: when it is \<open>NOT_DRAGGING\<close> before, and so in particular when
  no button is recorded as held (a press).
\<close>

theorem gesture_invariant:
  "gesture_inv (snd (pollEvents evs gesture0))
   \<and> (b AND 0xff = ButtonSecondary \<or> b AND 0xff = ButtonMiddle \<longrightarrow>
        dragState (snd (pollEvents evs gesture0)) = NOT_DRAGGING \<longrightarrow>
        dragState (snd (pollEvent (EventMouse x y b mods) (snd (pollEvents evs gesture0))))
          = NOT_DRAGGING)
   \<and> (b AND 0xff = ButtonSecondary \<or> b AND 0xff = ButtonMiddle \<longrightarrow>
        lastMouseKey (snd (pollEvents evs gesture0)) = ButtonNone \<longrightarrow>
        dragState (snd (pollEvent (EventMouse x y b mods) (snd (pollEvents evs gesture0))))
          = NOT_DRAGGING)"
proof -
  let ?s = "snd (pollEvents evs gesture0)"
  have inv: "gesture_inv ?s" by (rule pollEvents_inv [OF gesture0_inv])
  have idle: "dragState (snd (pollEvent (EventMouse x y b mods) ?s)) = NOT_DRAGGING"
    if "b AND 0xff = ButtonSecondary \<or> b AND 0xff = ButtonMiddle"
      and "dragState ?s = NOT_DRAGGING"
    using that pollMouse_stays_idle [of ?s b x y mods] by (auto simp: tcell_consts)
  have none: "dragState ?s = NOT_DRAGGING" if "lastMouseKey ?s = ButtonNone"
    using inv that by (simp add: gesture_inv_def tcell_consts)
  from inv idle none show ?thesis by blast
qed

text \<open>
  Instances: the invariant in the middle of a drag, and a secondary-button press after a
  finished click.
\<close>

theorem gesture_invariant_witness:
  "gesture_inv (snd (pollEvents [EventMouse 1 1 ButtonPrimary tcell_ModNone,
       EventMouse 2 1 ButtonPrimary tcell_ModNone] gesture0))
   \<and> dragState (snd (pollEvents [EventMouse 1 1 ButtonPrimary tcell_ModNone,
       EventMouse 1 1 ButtonNone tcell_ModNone] gesture0)) = NOT_DRAGGING
   \<and> dragState (snd (pollEvent (EventMouse 5 5 ButtonSecondary tcell_ModNone)
       (snd (pollEvents [EventMouse 1 1 ButtonPrimary tcell_ModNone,
          EventMouse 1 1 ButtonNone tcell_ModNone] gesture0)))) = NOT_DRAGGING"
  using gesture_invariant [of "[EventMouse 1 1 ButtonPrimary tcell_ModNone,
        EventMouse 2 1 ButtonPrimary tcell_ModNone]"]
    gesture_invariant [of "[EventMouse 1 1 ButtonPrimary tcell_ModNone,
        EventMouse 1 1 ButtonNone tcell_ModNone]" ButtonSecondary 5 5 tcell_ModNone]
  by (simp add: gesture0_def tcell_consts mouse_steps drag_consts wheelKey_def)

section \<open>Properties of the style encoder\<close>

lemmas style_setters = Bold_def Blink_def Reverse_def Underline_def Dim_def Italic_def
  StrikeThrough_def

lemmas attr_flags = AttrBold_def AttrBlink_def AttrReverse_def AttrUnderline_def AttrDim_def
  AttrItalic_def AttrStrikeThrough_def

lemmas tcell_flags = tcell_AttrBold_def tcell_AttrBlink_def tcell_AttrReverse_def
  tcell_AttrUnderline_def tcell_AttrDim_def tcell_AttrItalic_def tcell_AttrStrikeThrough_def

lemma cond_setAttrs:
  "(if c then setAttrs st m True else st)
     = st\<lparr>style_attrs := style_attrs st OR (if c then m else 0)\<rparr>"
  by (simp add: setAttrs_def)

lemma setTcellFontEffectStyle_eq:
  "setTcellFontEffectStyle st attr = st\<lparr>style_attrs := style_attrs st OR fontEffects attr\<rparr>"
  unfolding setTcellFontEffectStyle_def Let_def style_setters cond_setAttrs fontEffects_def
  by (simp add: or.assoc)

lemma attr_bit: "(a :: 64 word) AND push_bit n 1 \<noteq> 0 \<longleftrightarrow> bit a n"
  by (simp add: bit_iff_and_push_bit_not_eq_0)

lemma bit_cond_flag:
  "k < 64 \<Longrightarrow> bit (if c then push_bit k 1 else (0::64 word)) n \<longleftrightarrow> c \<and> n = k"
  by (auto simp: bit_exp_iff)

lemma below_seven:
  "n < 7 \<longleftrightarrow> n = 0 \<or> n = 1 \<or> n = 2 \<or> n = 3 \<or> n = 4 \<or> n = 5 \<or> n = (6::nat)"
  by arith

lemma fontEffects_bit: "bit (fontEffects a) n \<longleftrightarrow> n < 7 \<and> bit a (40 + n)"
  unfolding fontEffects_def attr_flags attr_bit tcell_flags
  by (auto simp add: bit_or_iff bit_cond_flag below_seven simp del: push_bit_of_1
      split del: if_split)

lemma fontEffects_or: "fontEffects (a OR b) = fontEffects a OR fontEffects b"
  by (rule bit_eqI) (auto simp add: fontEffects_bit bit_or_iff)

lemma fontEffects_push: "fontEffects (push_bit 40 m) = take_bit 7 m"
  by (rule bit_eqI) (auto simp add: fontEffects_bit bit_take_bit_iff bit_push_bit_iff)

lemma fontEffects_default: "fontEffects ColorDefault = 0"
  by (rule bit_eqI) (simp add: fontEffects_bit ColorDefault_def)

lemma getTcellStyle_attrs:
  "style_attrs (getTcellStyle gc fg bg om) = fontEffects fg OR fontEffects bg"
  using fontEffects_default
  by (auto simp add: getTcellStyle_def Let_def setTcellFontEffectStyle_eq Foreground_def
      Background_def StyleDefault_def)

subsection \<open>Channels with the default colour\<close>

text \<open>
  A flag on a channel whose colour selector is the default is applied. The attribute
  \<open>AttrBold\<close> has the default colour selector (its colour bits are those of
  \<open>ColorDefault\<close>) and the Bold flag; as a value it differs from \<open>ColorDefault\<close>, so the
  guard \<open>fg != ColorDefault\<close> lets it through, and the resulting style has the Bold flag.
\<close>

theorem flag_on_default_colour_applied:
  "AttrBold AND AttrColorBits = ColorDefault
   \<and> AttrBold \<noteq> ColorDefault
   \<and> style_attrs (getTcellStyle (\<lambda>a m. tcell_ColorDefault) AttrBold ColorDefault ())
       = tcell_AttrBold"
  by (simp add: getTcellStyle_def Let_def setTcellFontEffectStyle_def AttrColorBits_def
      ColorDefault_def attr_flags tcell_flags style_setters setAttrs_def Foreground_def
      StyleDefault_def)

text \<open>
  Claim C6, as amended. If both attributes equal \<open>ColorDefault\<close>, \<open>getTcellStyle\<close> returns
  the default style: default colours and no flag. The guard compares the whole attribute
  value with \<open>ColorDefault\<close>: a channel whose value is \<open>ColorDefault\<close> (which has no flag
  bit) adds neither a colour nor a flag, and the style is built from the other channel
  alone. Every other channel, whatever its colour selector, has its colour set and its
  flags applied: the flags of the resulting style are exactly the flags of \<open>fg\<close> together
  with the flags of \<open>bg\<close>.
\<close>

theorem default_channel_skipped:
  "getTcellStyle gc ColorDefault ColorDefault om = StyleDefault
   \<and> StyleDefault =
       \<lparr>style_fg = tcell_ColorDefault, style_bg = tcell_ColorDefault, style_attrs = 0\<rparr>
   \<and> getTcellStyle gc ColorDefault bg om =
       (if bg \<noteq> ColorDefault
        then setTcellFontEffectStyle (Background StyleDefault (gc bg om)) bg else StyleDefault)
   \<and> getTcellStyle gc fg ColorDefault om =
       (if fg \<noteq> ColorDefault
        then setTcellFontEffectStyle (Foreground StyleDefault (gc fg om)) fg else StyleDefault)
   \<and> style_attrs (getTcellStyle gc fg bg om) = fontEffects fg OR fontEffects bg"
  by (simp add: getTcellStyle_attrs) (simp add: getTcellStyle_def StyleDefault_def)

subsection \<open>Flag application\<close>

text \<open>
  Claim C7. For every style and attribute, \<open>setTcellFontEffectStyle\<close> keeps the colours
  and adds to the flags of the style the flags of the attribute, each of the seven on its
  own: flag number \<open>n\<close> of the style's mask is added exactly when bit \<open>40 + n\<close> of the
  attribute is set. Applying the same attribute twice gives the same style as applying it
  once; applying two attributes gives the same style in either order, and the same style
  as applying their union at once. Every combination of the seven flags can be present:
  the attribute with the flag bits \<open>m\<close> gives, from the default style, exactly the flags
  \<open>m\<close>.
\<close>

theorem font_effect_flags_form_a_set:
  "setTcellFontEffectStyle st a = st\<lparr>style_attrs := style_attrs st OR fontEffects a\<rparr>
   \<and> (bit (fontEffects a) n \<longleftrightarrow> n < 7 \<and> bit a (40 + n))
   \<and> setTcellFontEffectStyle (setTcellFontEffectStyle st a) a = setTcellFontEffectStyle st a
   \<and> setTcellFontEffectStyle (setTcellFontEffectStyle st a) b
       = setTcellFontEffectStyle (setTcellFontEffectStyle st b) a
   \<and> setTcellFontEffectStyle st (a OR b)
       = setTcellFontEffectStyle (setTcellFontEffectStyle st a) b
   \<and> style_attrs (setTcellFontEffectStyle StyleDefault (push_bit 40 m)) = take_bit 7 m"
  by (simp add: setTcellFontEffectStyle_eq fontEffects_bit fontEffects_or fontEffects_push
      StyleDefault_def or.assoc or.commute or.left_commute)

section \<open>Properties of the candidate extractor\<close>

lemma extractLines_empty_label:
  "extractLines r vt [] ls = Inr cs \<Longrightarrow>
     map label cs = map value cs
     \<and> map (render vt) (matchContexts r ls) = map (\<lambda>c. Inr (value c)) cs"
  by (induction ls arbitrary: cs) (auto split: option.splits sum.splits)

lemma extractLines_label_self: "extractLines r vt [] ls = extractLines r vt vt ls"
  by (induction ls) (auto split: option.splits sum.splits)

lemma decimal_1_2: "decimal (Suc 0) = ''1''" "decimal (Suc (Suc 0)) = ''2''"
  by code_simp+

lemma remoteBranch_context:
  "matchContext remoteBranch c =
     [(''remote'', groupText c 1), (''branch'', groupText c 2),
      (''group_1'', groupText c 1), (''group_2'', groupText c 2)]"
proof -
  have "[1 ..< Suc 2] = [1, 2]" by (simp add: upt_rec)
  then show ?thesis
    by (simp add: matchContext_def remoteBranch_def decimal_1_2 numeral_2_eq_2
        del: decimal.simps)
qed

lemma remoteBranch_render:
  "render [Ref ''group_2''] (matchContext remoteBranch c)
     = render [Ref ''branch''] (matchContext remoteBranch c)"
  "render [Text t, Ref ''group_1''] (matchContext remoteBranch c)
     = render [Text t, Ref ''remote''] (matchContext remoteBranch c)"
  by (simp_all add: remoteBranch_context)

lemma remoteBranch_lines:
  "extractLines remoteBranch [Ref ''group_2''] [Text t, Ref ''group_1''] ls
     = extractLines remoteBranch [Ref ''branch''] [Text t, Ref ''remote''] ls"
  by (induction ls)
    (auto simp add: remoteBranch_render simp del: render.simps split: option.splits sum.splits)

text \<open>
  Claim C8. For the text \<open>upstream/pr-1\<close> and the pattern with the named groups \<open>remote\<close>
  and \<open>branch\<close>, the value template that refers to \<open>branch\<close> and the label template
  \<open>Remote: \<close> followed by \<open>remote\<close> give exactly one candidate, with value \<open>pr-1\<close> and
  label \<open>Remote: upstream\<close>; the templates that refer to \<open>group_2\<close> and \<open>group_1\<close> instead
  give the same candidate. With this pattern the two pairs of templates give the same
  result on every text.
\<close>

theorem named_and_positional_groups:
  "GenerateMenuCandidates ''upstream/pr-1'' (Some remoteBranch)
      [Ref ''branch''] [Text ''Remote: '', Ref ''remote'']
     = Inr [\<lparr>label = ''Remote: upstream'', value = ''pr-1''\<rparr>]
   \<and> GenerateMenuCandidates ''upstream/pr-1'' (Some remoteBranch)
      [Ref ''group_2''] [Text ''Remote: '', Ref ''group_1'']
     = Inr [\<lparr>label = ''Remote: upstream'', value = ''pr-1''\<rparr>]
   \<and> GenerateMenuCandidates text (Some remoteBranch)
      [Ref ''group_2''] [Text ''Remote: '', Ref ''group_1'']
     = GenerateMenuCandidates text (Some remoteBranch)
      [Ref ''branch''] [Text ''Remote: '', Ref ''remote'']"
proof (intro conjI)
  show "GenerateMenuCandidates ''upstream/pr-1'' (Some remoteBranch)
      [Ref ''branch''] [Text ''Remote: '', Ref ''remote'']
     = Inr [\<lparr>label = ''Remote: upstream'', value = ''pr-1''\<rparr>]"
    by code_simp
  show "GenerateMenuCandidates ''upstream/pr-1'' (Some remoteBranch)
      [Ref ''group_2''] [Text ''Remote: '', Ref ''group_1'']
     = Inr [\<lparr>label = ''Remote: upstream'', value = ''pr-1''\<rparr>]"
    by code_simp
  show "GenerateMenuCandidates text (Some remoteBranch)
      [Ref ''group_2''] [Text ''Remote: '', Ref ''group_1'']
     = GenerateMenuCandidates text (Some remoteBranch)
      [Ref ''branch''] [Text ''Remote: '', Ref ''remote'']"
    by (simp only: GenerateMenuCandidates_def option.case remoteBranch_lines)
qed

text \<open>
  Claim C9. Whenever a call with the empty label template produces candidates, the label
  of each candidate equals its value, and the values are, in line order, the value
  template rendered against the contexts of the matching lines. The call gives the same
  candidates as the call whose label template is the value template: the label is the
  rendered value, not the text of the template.
\<close>

theorem empty_label_is_rendered_value:
  assumes "GenerateMenuCandidates text (Some r) vt [] = Inr cs"
  shows "map label cs = map value cs
    \<and> map (render vt) (matchContexts r (splitLines text)) = map (\<lambda>c. Inr (value c)) cs
    \<and> GenerateMenuCandidates text (Some r) vt vt = Inr cs"
  using assms extractLines_empty_label [of r vt "splitLines text" cs]
    extractLines_label_self [of r vt "splitLines text"]
  by (simp add: GenerateMenuCandidates_def)

text \<open>
  An instance: the value template that joins \<open>branch\<close> and \<open>remote\<close> with a bar, on the
  text and the pattern of the scenarios.
\<close>

theorem empty_label_is_rendered_value_witness:
  "GenerateMenuCandidates ''upstream/pr-1'' (Some remoteBranch)
      [Ref ''branch'', Text ''|'', Ref ''remote''] []
     = Inr [\<lparr>label = ''pr-1|upstream'', value = ''pr-1|upstream''\<rparr>]
   \<and> map label [\<lparr>label = ''pr-1|upstream'', value = ''pr-1|upstream''\<rparr>]
     = map value [\<lparr>label = ''pr-1|upstream'', value = ''pr-1|upstream''\<rparr>]
   \<and> map (render [Ref ''branch'', Text ''|'', Ref ''remote''])
        (matchContexts remoteBranch (splitLines ''upstream/pr-1''))
     = [Inr ''pr-1|upstream'']"
proof -
  have run: "GenerateMenuCandidates ''upstream/pr-1'' (Some remoteBranch)
      [Ref ''branch'', Text ''|'', Ref ''remote''] []
     = Inr [\<lparr>label = ''pr-1|upstream'', value = ''pr-1|upstream''\<rparr>]"
    by code_simp
  from empty_label_is_rendered_value [OF run] run show ?thesis by simp
qed

end
